theory Spec2Isabelle
  imports Main "HOL-Library.Sublist"
begin

section \<open>JavaScript values the sources rely on\<close>

text \<open>
  Strings are lists of code units. The built-in regular expressions of the host language
  are not code of the repository; the fragment the sources use is modelled here as a
  backtracking matcher over a syntax tree, one constructor per construct of the pattern
  syntax: literal text, \<^verbatim>\<open>.\<close>, \<^verbatim>\<open>\d\<close>, a character class, \<^verbatim>\<open>^\<close>, \<^verbatim>\<open>$\<close>,
  concatenation, \<^verbatim>\<open>|\<close>, a (named) capture group, and \<^verbatim>\<open>+\<close> (greedy) or \<^verbatim>\<open>+?\<close> (lazy).
  No pattern of the sources carries a flag, so \<^verbatim>\<open>^\<close> and \<^verbatim>\<open>$\<close> are the ends of the input and
  \<^verbatim>\<open>.\<close> excludes the line terminators.
\<close>

type_synonym groups = "string \<rightharpoonup> string"

datatype rx =
    RLit string
  | RDot
  | RDigit
  | RClass bool string
  | RBol
  | REol
  | RCat rx rx
  | RAlt rx rx
  | RGroup "string option" rx
  | RPlus bool rx

definition line_terminator :: "char \<Rightarrow> bool" where
  "line_terminator c = (c = CHR 0x0A \<or> c = CHR 0x0D)"

definition digit :: "char \<Rightarrow> bool" where
  "digit c = (c \<in> set ''0123456789'')"

text \<open>
  A matcher state is the position reached and the named groups captured so far. Matching
  a pattern from a state gives every state it can end in, most preferred first, which is
  the order in which a backtracking engine tries them.
\<close>

fun one_char :: "(char \<Rightarrow> bool) \<Rightarrow> string \<Rightarrow> nat \<times> groups \<Rightarrow> (nat \<times> groups) list" where
  "one_char p s (i, g) = (if i < length s \<and> p (s ! i) then [(Suc i, g)] else [])"

primrec iter :: "bool \<Rightarrow> (nat \<times> groups \<Rightarrow> (nat \<times> groups) list) \<Rightarrow> nat
    \<Rightarrow> nat \<times> groups \<Rightarrow> (nat \<times> groups) list" where
  "iter greedy f 0 = (\<lambda>x. [x])"
| "iter greedy f (Suc n) = (\<lambda>x.
     let further = concat (map (iter greedy f n) (filter (\<lambda>y. fst x < fst y) (f x)))
     in if greedy then further @ [x] else x # further)"

primrec rx_match :: "rx \<Rightarrow> string \<Rightarrow> nat \<times> groups \<Rightarrow> (nat \<times> groups) list" where
  "rx_match (RLit w) s x =
     (if prefix w (drop (fst x) s) then [(fst x + length w, snd x)] else [])"
| "rx_match RDot s x = one_char (\<lambda>c. \<not> line_terminator c) s x"
| "rx_match RDigit s x = one_char digit s x"
| "rx_match (RClass d cs) s x = one_char (\<lambda>c. (d \<and> digit c) \<or> c \<in> set cs) s x"
| "rx_match RBol s x = (if fst x = 0 then [x] else [])"
| "rx_match REol s x = (if fst x = length s then [x] else [])"
| "rx_match (RCat a b) s x = concat (map (rx_match b s) (rx_match a s x))"
| "rx_match (RAlt a b) s x = rx_match a s x @ rx_match b s x"
| "rx_match (RGroup n r) s x =
     map (\<lambda>y. (fst y, case n of None \<Rightarrow> snd y
                             | Some k \<Rightarrow> (snd y)(k \<mapsto> take (fst y - fst x) (drop (fst x) s))))
         (rx_match r s x)"
| "rx_match (RPlus greedy r) s x =
     concat (map (iter greedy (rx_match r s) (length s)) (rx_match r s x))"

text \<open>
  The result of \<^verbatim>\<open>RegExp.prototype.exec\<close> (and of \<^verbatim>\<open>String.prototype.match\<close> with a pattern
  that has no \<^verbatim>\<open>g\<close> flag): the leftmost start position with a match, and the most preferred
  match there; \<open>None\<close> is \<^verbatim>\<open>null\<close>. Only the fields the sources read are kept.
\<close>

record match_result =
  index :: nat
  matched :: string
  groups :: groups

definition rx_exec :: "rx \<Rightarrow> string \<Rightarrow> match_result option" where
  "rx_exec r s =
     (case List.find (\<lambda>i. rx_match r s (i, Map.empty) \<noteq> []) [0..<Suc (length s)] of
        None \<Rightarrow> None
      | Some i \<Rightarrow>
         (case rx_match r s (i, Map.empty) of
            [] \<Rightarrow> None
          | y # _ \<Rightarrow> Some \<lparr>index = i, matched = take (fst y - i) (drop i s), groups = snd y\<rparr>))"

definition seqs :: "rx list \<Rightarrow> rx" where
  "seqs rs = foldr RCat (butlast rs) (last rs)"

section \<open>The exit matcher (src/omegga/matchers/exit.js)\<close>

text \<open>
  The tokenizer's result is a record of the generator and the data of a console line, or
  absent. The value \<^verbatim>\<open>pattern\<close> returns is \<^verbatim>\<open>undefined\<close> (the bare \<^verbatim>\<open>return\<close>), \<^verbatim>\<open>null\<close> (a failed
  \<^verbatim>\<open>match\<close>) or a match array.
\<close>

record parsed_line =
  generator :: string
  data :: string

datatype js_match = Undefined | Null | MatchArray match_result

fun truthy :: "js_match \<Rightarrow> bool" where
  "truthy (MatchArray _) = True"
| "truthy _ = False"

definition js_string_match :: "string \<Rightarrow> rx \<Rightarrow> js_match" where
  "js_string_match s r = (case rx_exec r s of None \<Rightarrow> Null | Some m \<Rightarrow> MatchArray m)"

text \<open>\<^verbatim>\<open>/^Log(Exit|AuthManager)$/\<close>\<close>

definition exit_generator_rx :: rx where
  "exit_generator_rx =
     seqs [RBol, RLit ''Log'', RGroup None (RAlt (RLit ''Exit'') (RLit ''AuthManager'')), REol]"

text \<open>\<^verbatim>\<open>/^(Shutting down Auth Manager|Exiting).$/\<close>\<close>

definition exit_data_rx :: rx where
  "exit_data_rx =
     seqs [RBol, RGroup None (RAlt (RLit ''Shutting down Auth Manager'') (RLit ''Exiting'')),
           RDot, REol]"

definition exit_pattern :: "string \<Rightarrow> parsed_line option \<Rightarrow> js_match" where
  "exit_pattern line logMatch =
     (case logMatch of
        None \<Rightarrow> Undefined
      | Some m \<Rightarrow>
          (case js_string_match (generator m) exit_generator_rx of
             MatchArray _ \<Rightarrow> js_string_match (data m) exit_data_rx
           | falsy \<Rightarrow> falsy))"

text \<open>An emitted event is its name and its arguments; the session's emitter is the list of
  the events emitted so far. The callback declares no parameter: what the pipeline passes
  to it is dropped.\<close>

type_synonym event = "string \<times> string list"

definition exit_callback :: "js_match \<Rightarrow> event list \<Rightarrow> event list" where
  "exit_callback passed emitted = emitted @ [(''exit'', [])]"

section \<open>Players (src/omegga/player.ts)\<close>

subsection \<open>Construction, clone and raw\<close>

text \<open>
  Objects live in a store and are named by references, so that "a new Player", "the same
  Omegga instance" and "left unchanged" have a meaning. The store of players is the list
  of the Player objects allocated so far, a reference is an index into it, and \<^verbatim>\<open>new\<close>
  allocates at the end. The private field \<^verbatim>\<open>#omegga\<close> holds a reference to the Omegga
  instance. A reference outside the store stands for a receiver that is not a Player:
  reading its private field throws a TypeError, and its public fields are \<^verbatim>\<open>undefined\<close>.
\<close>

text \<open>The reasons a promise is rejected with: the error kinds of the correlation engine,
  and the TypeError and SyntaxError of the language itself.\<close>

datatype error = TimeoutError | WriteFailure | CancellationError | TypeError | SyntaxError

type_synonym ref = nat

record player =
  omegga :: ref
  name :: string
  id' :: string
  controller :: string
  state :: string

type_synonym player_store = "player list"

definition Player_new ::
  "player_store \<Rightarrow> ref \<Rightarrow> string \<Rightarrow> string \<Rightarrow> string \<Rightarrow> string \<Rightarrow> ref \<times> player_store" where
  "Player_new h om n i c st =
     (length h, h @ [\<lparr>omegga = om, name = n, id' = i, controller = c, state = st\<rparr>])"

definition getOmegga :: "player_store \<Rightarrow> ref \<Rightarrow> error + ref" where
  "getOmegga h this = (if this < length h then Inr (omegga (h ! this)) else Inl TypeError)"

definition clone :: "player_store \<Rightarrow> ref \<Rightarrow> error + ref \<times> player_store" where
  "clone h this =
     (if this < length h
      then Inr (Player_new h (omegga (h ! this)) (name (h ! this)) (id' (h ! this))
                  (controller (h ! this)) (state (h ! this)))
      else Inl TypeError)"

text \<open>\<^verbatim>\<open>raw\<close> reads no private field: on a receiver that is not a Player it gives an array
  of four times \<^verbatim>\<open>undefined\<close>.\<close>

definition raw ::
  "player_store \<Rightarrow> ref \<Rightarrow> string option \<times> string option \<times> string option \<times> string option" where
  "raw h this =
     (if this < length h
      then (Some (name (h ! this)), Some (id' (h ! this)), Some (controller (h ! this)),
            Some (state (h ! this)))
      else (None, None, None, None))"

text \<open>\<^verbatim>\<open>new Player(p.getOmegga(), ...p.raw())\<close>: the four elements of the array are spread
  over the last four parameters of the constructor. \<^verbatim>\<open>getOmegga\<close> is evaluated first, and it
  throws unless \<open>p\<close> is a Player, whose fields are strings; so the last case, an element
  that is \<^verbatim>\<open>undefined\<close>, does not arise.\<close>

definition Player_from_raw :: "player_store \<Rightarrow> ref \<Rightarrow> error + ref \<times> player_store" where
  "Player_from_raw h p =
     (case getOmegga h p of
        Inl e \<Rightarrow> Inl e
      | Inr om \<Rightarrow>
          (case raw h p of
             (Some n, Some i, Some c, Some st) \<Rightarrow> Inr (Player_new h om n i c st)
           | _ \<Rightarrow> Inl TypeError))"

subsection \<open>Roles and permissions\<close>

text \<open>
  What \<^verbatim>\<open>getRoles\<close> and \<^verbatim>\<open>getPermissions\<close> read of the Omegga instance: the id of the host,
  the role setup and the saved role assignments (an assignment may lack its \<^verbatim>\<open>roles\<close>).
  A permissions object maps names to \<^verbatim>\<open>true\<close>, \<^verbatim>\<open>false\<close> or \<^verbatim>\<open>undefined\<close>, and is frozen or not.
  Permission and role names are taken not to be names of properties that every object
  inherits (\<^verbatim>\<open>constructor\<close>, \<^verbatim>\<open>toString\<close>, ...): a lookup of a name that was never stored
  is \<^verbatim>\<open>undefined\<close>.
\<close>

record permission =
  perm_name :: string
  perm_state :: string

record role =
  role_name :: string
  permissions :: "permission list"

record role_setup =
  roles :: "role list"
  defaultRole :: role

record omegga_instance =
  host_id :: string
  getRoleSetup :: role_setup
  savedPlayerRoles :: "string \<rightharpoonup> string list option"

datatype jsbool = JUndefined | JBool bool

record permissions_object =
  props :: "string \<rightharpoonup> jsbool"
  frozen :: bool

definition set_prop :: "(string \<rightharpoonup> jsbool) \<Rightarrow> string \<times> jsbool \<Rightarrow> (string \<rightharpoonup> jsbool)" where
  "set_prop m e = m(fst e \<mapsto> snd e)"

definition fromEntries :: "(string \<times> jsbool) list \<Rightarrow> permissions_object" where
  "fromEntries es = \<lparr>props = foldl set_prop Map.empty es, frozen = False\<rparr>"

definition freeze :: "permissions_object \<Rightarrow> permissions_object" where
  "freeze ob = ob\<lparr>frozen := True\<rparr>"

definition get_prop :: "(string \<rightharpoonup> jsbool) \<Rightarrow> string \<Rightarrow> jsbool" where
  "get_prop m k = (case m k of None \<Rightarrow> JUndefined | Some v \<Rightarrow> v)"

definition DEFAULT_PERMS :: "string \<Rightarrow> string list" where
  "DEFAULT_PERMS r =
     (if r = ''moderator'' then
        [''Bricks.ClearAll'', ''Minigame.AlwaysLeave'', ''Players.Kick'',
         ''Players.TPInMinigame'', ''Players.TPOthers'', ''Self.Ghost'']
      else if r = ''admin'' then
        [''Bricks.ClearAll'', ''Bricks.ClearOwn'', ''Bricks.IgnoreTrust'', ''Bricks.Load'',
         ''Map.Environment'', ''Minigame.AlwaysEdit'', ''Minigame.AlwaysLeave'',
         ''Minigame.AlwaysSwitchTeam'', ''Minigame.MakeDefault'', ''Minigame.MakePersistent'',
         ''Minigame.UseAllBricks'', ''Players.Ban'', ''Players.Kick'', ''Players.TPInMinigame'',
         ''Players.TPOthers'', ''Roles.Grant'', ''Self.Ghost'', ''Server.ChangeRoles'',
         ''Server.ChangeSettings'', ''Server.FreezeCamera'', ''Tools.Selector.BypassLimits'',
         ''Tools.Selector.BypassTimeouts'']
      else [])"

definition default_player_permissions :: "(string \<times> jsbool) list" where
  "default_player_permissions =
     [(''Bricks.ClearAll'', JBool False), (''Bricks.ClearOwn'', JBool True),
      (''Bricks.Delete'', JBool True), (''Bricks.Edit'', JBool True),
      (''Bricks.IgnoreTrust'', JBool False), (''Bricks.Paint'', JBool True),
      (''Bricks.Place'', JBool True), (''BricksItems.Spawn'', JBool True),
      (''Map.Change'', JBool False), (''Map.Environment'', JBool False),
      (''Map.SetSpawn'', JBool False), (''Minigame.AlwaysEdit'', JBool False),
      (''Minigame.AlwaysLeave'', JBool False), (''Minigame.AlwaysSwitchTeam'', JBool False),
      (''Minigame.Create'', JBool True), (''Minigame.MakePersistent'', JBool False),
      (''Minigame.UseAllBricks'', JBool False), (''Players.Ban'', JBool False),
      (''Players.TPInMinigame'', JBool False), (''Players.TPOthers'', JBool False),
      (''Players.TPSelf'', JBool True), (''Roles.Grant'', JBool False),
      (''Self.Flashlight'', JBool True), (''Self.Fly'', JBool True),
      (''Self.FreezeCamera'', JBool False), (''Self.Ghost'', JBool False),
      (''Self.Sprint'', JBool True), (''Self.Suicide'', JBool True),
      (''Tools.Selector.Use'', JBool True)]"

definition lower_char :: "char \<Rightarrow> char" where
  "lower_char c =
     (let n = (of_char c :: nat)
      in if (65 \<le> n \<and> n \<le> 90) \<or> (192 \<le> n \<and> n \<le> 222 \<and> n \<noteq> 215)
         then char_of (n + 32) else c)"

definition toLowerCase :: "string \<Rightarrow> string" where
  "toLowerCase s = map lower_char s"

definition getRoles :: "omegga_instance \<Rightarrow> string \<Rightarrow> string list" where
  "getRoles om i =
     (case savedPlayerRoles om i of
        Some (Some rs) \<Rightarrow> rs
      | _ \<Rightarrow> [])"

text \<open>The first loop of \<^verbatim>\<open>getPermissions\<close>: one permission of the default role.\<close>

definition apply_default :: "(string \<rightharpoonup> jsbool) \<Rightarrow> permission \<Rightarrow> (string \<rightharpoonup> jsbool)" where
  "apply_default m p =
     m(perm_name p \<mapsto>
        (if perm_state p = ''Unchanged'' then get_prop m (perm_name p)
         else JBool (perm_state p = ''Allowed'')))"

text \<open>The inner loops over one role the player has: its default permissions that the
  role does not list become \<^verbatim>\<open>true\<close>, then each listed permission is applied.\<close>

definition apply_role_default :: "role \<Rightarrow> (string \<rightharpoonup> jsbool) \<Rightarrow> string \<Rightarrow> (string \<rightharpoonup> jsbool)" where
  "apply_role_default r m perm =
     (if List.find (\<lambda>q. perm_name q = perm) (permissions r) = None
      then m(perm \<mapsto> JBool True) else m)"

definition apply_role_perm :: "(string \<rightharpoonup> jsbool) \<Rightarrow> permission \<Rightarrow> (string \<rightharpoonup> jsbool)" where
  "apply_role_perm m p =
     m(perm_name p \<mapsto>
        (if perm_state p = ''Forbidden'' then JBool False
         else if perm_state p = ''Unchanged'' then get_prop m (perm_name p)
         else if get_prop m (perm_name p) = JBool True then JBool True
         else JBool (perm_state p = ''Allowed'')))"

definition apply_role :: "string list \<Rightarrow> (string \<rightharpoonup> jsbool) \<Rightarrow> role \<Rightarrow> (string \<rightharpoonup> jsbool)" where
  "apply_role playerRoles m r =
     (if toLowerCase (role_name r) \<notin> set playerRoles then m
      else foldl apply_role_perm
             (foldl (apply_role_default r) m (DEFAULT_PERMS (toLowerCase (role_name r))))
             (permissions r))"

definition getPermissions :: "omegga_instance \<Rightarrow> string \<Rightarrow> permissions_object" where
  "getPermissions om i =
     (let rs = roles (getRoleSetup om); d = defaultRole (getRoleSetup om)
      in if host_id om = i
         then freeze (fromEntries
                (map (\<lambda>p. (perm_name p, JBool True)) (permissions d) @
                 concat (map (\<lambda>r. map (\<lambda>p. (perm_name p, JBool True)) (permissions r)) rs)))
         else
           let playerRoles = map toLowerCase (getRoles om i);
               m0 = props (fromEntries default_player_permissions);
               m1 = foldl apply_default m0 (permissions d);
               m2 = foldl (apply_role playerRoles) m1 rs
           in freeze \<lparr>props = m2, frozen = False\<rparr>)"

subsection \<open>Promises and the wait-all join\<close>

text \<open>
  A promise is pending, fulfilled with a value or rejected with a reason. \<^verbatim>\<open>Promise.all\<close>
  over \<open>n\<close> promises is a state machine fed with their settlements, in the order in which
  they happen: a settlement is the position of the promise in the array and its outcome.
  The join is rejected by the first rejection it sees while pending, and fulfilled with
  the values in array order when the last value arrives; once settled it stays as it is.
\<close>

datatype 'a promise = Pending | Fulfilled 'a | Rejected error

record 'a join =
  slots :: "'a option list"
  settled :: "'a list promise"

definition join_start :: "nat \<Rightarrow> 'a join" where
  "join_start n = \<lparr>slots = replicate n None, settled = (if n = 0 then Fulfilled [] else Pending)\<rparr>"

definition join_step :: "'a join \<Rightarrow> nat \<times> (error + 'a) \<Rightarrow> 'a join" where
  "join_step j ev =
     (case settled j of
        Pending \<Rightarrow>
          (case snd ev of
             Inl e \<Rightarrow> j\<lparr>settled := Rejected e\<rparr>
           | Inr v \<Rightarrow>
               (let s = (slots j)[fst ev := Some v]
                in \<lparr>slots = s,
                    settled = (if list_all (\<lambda>x. x \<noteq> None) s then Fulfilled (map the s)
                               else Pending)\<rparr>))
      | _ \<Rightarrow> j)"

definition Promise_all :: "nat \<Rightarrow> (nat \<times> (error + 'a)) list \<Rightarrow> 'a list promise" where
  "Promise_all n evs = settled (foldl join_step (join_start n) evs)"

subsection \<open>The bulk queries: getGhostBrick, getPaint, getTemplateBounds\<close>

text \<open>
  \<^verbatim>\<open>watchLogChunk\<close> is a method of the Omegga instance and not part of these sources. A call
  is recorded with its command, its pattern and its options (\<^verbatim>\<open>timeoutDelay\<close> is absent
  where the call does not pass it); what the call's promise settles to comes from outside,
  as the settlements fed to the join. Each method is an \<^verbatim>\<open>async\<close> function that evaluates
  all its calls, awaits the join of their promises, and then runs its body on the arrays.
  Numeric coercion (\<^verbatim>\<open>+s\<close>, \<^verbatim>\<open>Number(s)\<close>) is a parameter \<open>num\<close>, applied to a group's value
  or to \<^verbatim>\<open>undefined\<close>.
\<close>

record chunk_call =
  cmd :: string
  pattern :: rx
  first :: "string option"
  timeoutDelay :: "nat option"

abbreviation digits :: rx where
  "digits \<equiv> RPlus True RDigit"

abbreviation anything :: rx where
  "anything \<equiv> RPlus True RDot"

abbreviation named :: "string \<Rightarrow> rx \<Rightarrow> rx" where
  "named n r \<equiv> RGroup (Some n) r"

abbreviation unnamed :: "rx \<Rightarrow> rx" where
  "unnamed r \<equiv> RGroup None r"

abbreviation quote :: string where
  "quote \<equiv> [CHR 0x27]"

abbreviation dquote :: string where
  "dquote \<equiv> [CHR 0x22]"

text \<open>\<^verbatim>\<open>/^(?<index>\d+)\) BrickGridPreviewActor (.+):PersistentLevel\.(?<actor>BrickGridPreviewActor_\d+)\.Owner = BP_PlayerController_C'(.+):PersistentLevel\.(?<controller>BP_PlayerController_C_\d+)'$/\<close>\<close>

definition ghost_ownerRegExp :: rx where
  "ghost_ownerRegExp = seqs
     [RBol, named ''index'' digits, RLit '') BrickGridPreviewActor '', unnamed anything,
      RLit '':PersistentLevel.'',
      named ''actor'' (seqs [RLit ''BrickGridPreviewActor_'', digits]),
      RLit (''.Owner = BP_PlayerController_C'' @ quote), unnamed anything,
      RLit '':PersistentLevel.'',
      named ''controller'' (seqs [RLit ''BP_PlayerController_C_'', digits]),
      RLit quote, REol]"

text \<open>\<^verbatim>\<open>/^(?<index>\d+)\) BrickGridPreviewActor (.+):PersistentLevel\.(?<actor>BrickGridPreviewActor_\d+)\.TransformParameters = \(TargetGrid=("(?<targetGrid>.+)"|None),Position=\(X=(?<x>.+),Y=(?<y>.+),Z=(?<z>.+)\),Orientation=(?<orientation>.+)\)$/\<close>\<close>

definition transformParamsRegExp :: rx where
  "transformParamsRegExp = seqs
     [RBol, named ''index'' digits, RLit '') BrickGridPreviewActor '', unnamed anything,
      RLit '':PersistentLevel.'',
      named ''actor'' (seqs [RLit ''BrickGridPreviewActor_'', digits]),
      RLit ''.TransformParameters = (TargetGrid='',
      unnamed (RAlt (seqs [RLit dquote, named ''targetGrid'' anything, RLit dquote])
                    (RLit ''None'')),
      RLit '',Position=(X='', named ''x'' anything,
      RLit '',Y='', named ''y'' anything,
      RLit '',Z='', named ''z'' anything,
      RLit ''),Orientation='', named ''orientation'' anything,
      RLit '')'', REol]"

definition getGhostBrick_calls :: "chunk_call list" where
  "getGhostBrick_calls =
     [\<lparr>cmd = ''GetAll BrickGridPreviewActor Owner'', pattern = ghost_ownerRegExp,
       first = Some ''index'', timeoutDelay = Some 500\<rparr>,
      \<lparr>cmd = ''GetAll BrickGridPreviewActor TransformParameters'',
       pattern = transformParamsRegExp,
       first = Some ''index'', timeoutDelay = Some 500\<rparr>]"

record 'n ghost_brick =
  targetGrid :: "string option"
  location :: "'n list"
  orientation :: "string option"

definition getGhostBrick_body ::
  "(string option \<Rightarrow> 'n) \<Rightarrow> string \<Rightarrow> match_result list \<Rightarrow> match_result list
     \<Rightarrow> 'n ghost_brick option" where
  "getGhostBrick_body num c owners transformParams =
     (case List.find (\<lambda>owner. groups owner ''controller'' = Some c) owners of
        None \<Rightarrow> None
      | Some owner \<Rightarrow>
          (let actor = groups owner ''actor''
           in case List.find (\<lambda>t. groups t ''actor'' = actor) transformParams of
                None \<Rightarrow> None
              | Some t \<Rightarrow>
                  Some \<lparr>targetGrid = groups t ''targetGrid'',
                        location = [num (groups t ''x''), num (groups t ''y''),
                                    num (groups t ''z'')],
                        orientation = groups t ''orientation''\<rparr>))"

definition getGhostBrick ::
  "(string option \<Rightarrow> 'n) \<Rightarrow> player \<Rightarrow> (nat \<times> (error + match_result list)) list
     \<Rightarrow> 'n ghost_brick option promise" where
  "getGhostBrick num this evs =
     (case Promise_all (length getGhostBrick_calls) evs of
        Pending \<Rightarrow> Pending
      | Rejected e \<Rightarrow> Rejected e
      | Fulfilled [owners, transformParams] \<Rightarrow>
          Fulfilled (getGhostBrick_body num (controller this) owners transformParams)
      | Fulfilled _ \<Rightarrow> Rejected TypeError)"

text \<open>The four patterns of \<^verbatim>\<open>getPaint\<close>:

  \<^verbatim>\<open>/^(?<index>\d+)\) BP_Item_PaintTool_C (.+):PersistentLevel\.(?<actor>BP_Item_PaintTool_C_\d+)\.Owner = BP_PlayerController_C'(.+):PersistentLevel\.(?<controller>BP_PlayerController_C_\d+)'$/\<close>

  \<^verbatim>\<open>/^(?<index>\d+)\) BP_Item_PaintTool_C (.+):PersistentLevel\.(?<actor>BP_Item_PaintTool_C_\d+)\.SelectedColor = \(B=(?<b>.+),G=(?<g>.+),R=(?<r>.+),A=(?<a>.+)\)$/\<close>

  \<^verbatim>\<open>/^(?<index>\d+)\) BP_Item_PaintTool_C (.+):PersistentLevel\.(?<actor>BP_Item_PaintTool_C_\d+)\.SelectedMaterialId = (?<materialIndex>\d+)$/\<close>

  \<^verbatim>\<open>/^(?<index>\d+)\) BP_Item_PaintTool_C (.+):PersistentLevel\.(?<actor>BP_Item_PaintTool_C_\d+)\.SelectedMaterialAlpha = (?<materialAlpha>\d+)$/\<close>\<close>

definition paint_ownerRegExp :: rx where
  "paint_ownerRegExp = seqs
     [RBol, named ''index'' digits, RLit '') BP_Item_PaintTool_C '', unnamed anything,
      RLit '':PersistentLevel.'',
      named ''actor'' (seqs [RLit ''BP_Item_PaintTool_C_'', digits]),
      RLit (''.Owner = BP_PlayerController_C'' @ quote), unnamed anything,
      RLit '':PersistentLevel.'',
      named ''controller'' (seqs [RLit ''BP_PlayerController_C_'', digits]),
      RLit quote, REol]"

definition colorRegExp :: rx where
  "colorRegExp = seqs
     [RBol, named ''index'' digits, RLit '') BP_Item_PaintTool_C '', unnamed anything,
      RLit '':PersistentLevel.'',
      named ''actor'' (seqs [RLit ''BP_Item_PaintTool_C_'', digits]),
      RLit ''.SelectedColor = (B='', named ''b'' anything,
      RLit '',G='', named ''g'' anything,
      RLit '',R='', named ''r'' anything,
      RLit '',A='', named ''a'' anything,
      RLit '')'', REol]"

definition materialRegExp :: rx where
  "materialRegExp = seqs
     [RBol, named ''index'' digits, RLit '') BP_Item_PaintTool_C '', unnamed anything,
      RLit '':PersistentLevel.'',
      named ''actor'' (seqs [RLit ''BP_Item_PaintTool_C_'', digits]),
      RLit ''.SelectedMaterialId = '', named ''materialIndex'' digits, REol]"

definition materialAlphaRegExp :: rx where
  "materialAlphaRegExp = seqs
     [RBol, named ''index'' digits, RLit '') BP_Item_PaintTool_C '', unnamed anything,
      RLit '':PersistentLevel.'',
      named ''actor'' (seqs [RLit ''BP_Item_PaintTool_C_'', digits]),
      RLit ''.SelectedMaterialAlpha = '', named ''materialAlpha'' digits, REol]"

definition getPaint_calls :: "chunk_call list" where
  "getPaint_calls =
     [\<lparr>cmd = ''GetAll BP_Item_PaintTool_C Owner'', pattern = paint_ownerRegExp,
       first = Some ''index'', timeoutDelay = Some 500\<rparr>,
      \<lparr>cmd = ''GetAll BP_Item_PaintTool_C SelectedColor'', pattern = colorRegExp,
       first = Some ''index'', timeoutDelay = Some 500\<rparr>,
      \<lparr>cmd = ''GetAll BP_Item_PaintTool_C SelectedMaterialId'', pattern = materialRegExp,
       first = Some ''index'', timeoutDelay = Some 500\<rparr>,
      \<lparr>cmd = ''GetAll BP_Item_PaintTool_C SelectedMaterialAlpha'',
       pattern = materialAlphaRegExp,
       first = Some ''index'', timeoutDelay = Some 500\<rparr>]"

text \<open>\<^verbatim>\<open>DEFAULT_MATERIALS\<close> is a table of another module: the parameter \<open>materials\<close> is its
  lookup by a number, \<open>None\<close> where the table has no entry.\<close>

record ('n, 'm) paint =
  materialIndex :: "string option"
  materialAlpha :: "string option"
  material :: "'m option"
  color :: "'n list"

definition getPaint_body ::
  "(string option \<Rightarrow> 'n) \<Rightarrow> ('n \<Rightarrow> 'm option) \<Rightarrow> string \<Rightarrow> match_result list
     \<Rightarrow> match_result list \<Rightarrow> match_result list \<Rightarrow> match_result list
     \<Rightarrow> ('n, 'm) paint option" where
  "getPaint_body num materials c owners colorMatch materialMatch materialAlphaMatch =
     (case List.find (\<lambda>owner. groups owner ''controller'' = Some c) owners of
        None \<Rightarrow> None
      | Some owner \<Rightarrow>
          (let actor = groups owner ''actor'' in
           case (List.find (\<lambda>x. groups x ''actor'' = actor) colorMatch,
                 List.find (\<lambda>x. groups x ''actor'' = actor) materialMatch,
                 List.find (\<lambda>x. groups x ''actor'' = actor) materialAlphaMatch) of
             (Some col, Some mat, Some alpha) \<Rightarrow>
               Some \<lparr>materialIndex = groups mat ''materialIndex'',
                     materialAlpha = groups alpha ''materialAlpha'',
                     material = materials (num (groups mat ''materialIndex'')),
                     color = [num (groups col ''r''), num (groups col ''g''),
                              num (groups col ''b'')]\<rparr>
           | _ \<Rightarrow> None))"

definition getPaint ::
  "(string option \<Rightarrow> 'n) \<Rightarrow> ('n \<Rightarrow> 'm option) \<Rightarrow> player
     \<Rightarrow> (nat \<times> (error + match_result list)) list \<Rightarrow> ('n, 'm) paint option promise" where
  "getPaint num materials this evs =
     (case Promise_all (length getPaint_calls) evs of
        Pending \<Rightarrow> Pending
      | Rejected e \<Rightarrow> Rejected e
      | Fulfilled [owners, colorMatch, materialMatch, materialAlphaMatch] \<Rightarrow>
          Fulfilled (getPaint_body num materials (controller this)
                       owners colorMatch materialMatch materialAlphaMatch)
      | Fulfilled _ \<Rightarrow> Rejected TypeError)"

text \<open>The four patterns of \<^verbatim>\<open>getTemplateBounds\<close> (the first one has an unescaped \<^verbatim>\<open>.\<close> after
  \<^verbatim>\<open>Transient\<close>):

  \<^verbatim>\<open>/^(?<index>\d+)\) BP_PlayerController_C (.+):PersistentLevel\.(?<controller>BP_PlayerController_C_\d+)\.TEMP_BrickTemplate_Server = BrickBuildingTemplate'(.+)Transient.(?<templateName>BrickBuildingTemplate_\d+)'$/\<close>

  \<^verbatim>\<open>/^(?<index>\d+)\) BrickBuildingTemplate (.+)Transient\.(?<templateName>BrickBuildingTemplate_\d+)\.MinBounds = \(X=(?<x>.+),Y=(?<y>.+),Z=(?<z>.+)\)$/\<close>

  and the same with \<^verbatim>\<open>MaxBounds\<close> and \<^verbatim>\<open>Center\<close>.\<close>

definition brickTemplateRegExp :: rx where
  "brickTemplateRegExp = seqs
     [RBol, named ''index'' digits, RLit '') BP_PlayerController_C '', unnamed anything,
      RLit '':PersistentLevel.'',
      named ''controller'' (seqs [RLit ''BP_PlayerController_C_'', digits]),
      RLit (''.TEMP_BrickTemplate_Server = BrickBuildingTemplate'' @ quote),
      unnamed anything, RLit ''Transient'', RDot,
      named ''templateName'' (seqs [RLit ''BrickBuildingTemplate_'', digits]),
      RLit quote, REol]"

definition boundsRegExp :: "string \<Rightarrow> rx" where
  "boundsRegExp field = seqs
     [RBol, named ''index'' digits, RLit '') BrickBuildingTemplate '', unnamed anything,
      RLit ''Transient.'',
      named ''templateName'' (seqs [RLit ''BrickBuildingTemplate_'', digits]),
      RLit (''.'' @ field @ '' = (X=''), named ''x'' anything,
      RLit '',Y='', named ''y'' anything,
      RLit '',Z='', named ''z'' anything,
      RLit '')'', REol]"

definition minBoundsRegExp :: rx where
  "minBoundsRegExp = boundsRegExp ''MinBounds''"

definition maxBoundsRegExp :: rx where
  "maxBoundsRegExp = boundsRegExp ''MaxBounds''"

definition centerRegExp :: rx where
  "centerRegExp = boundsRegExp ''Center''"

definition getTemplateBounds_calls :: "player \<Rightarrow> chunk_call list" where
  "getTemplateBounds_calls this =
     [\<lparr>cmd = ''GetAll BP_PlayerController_C TEMP_BrickTemplate_Server Name='' @ controller this,
       pattern = brickTemplateRegExp, first = Some ''index'', timeoutDelay = None\<rparr>,
      \<lparr>cmd = ''GetAll BrickBuildingTemplate MinBounds'', pattern = minBoundsRegExp,
       first = Some ''index'', timeoutDelay = None\<rparr>,
      \<lparr>cmd = ''GetAll BrickBuildingTemplate MaxBounds'', pattern = maxBoundsRegExp,
       first = Some ''index'', timeoutDelay = None\<rparr>,
      \<lparr>cmd = ''GetAll BrickBuildingTemplate Center'', pattern = centerRegExp,
       first = Some ''index'', timeoutDelay = None\<rparr>]"

record 'n brick_bounds =
  minBound :: "'n list"
  maxBound :: "'n list"
  center :: "'n list"

definition xyz :: "(string option \<Rightarrow> 'n) \<Rightarrow> match_result \<Rightarrow> 'n list" where
  "xyz num m = [num (groups m ''x''), num (groups m ''y''), num (groups m ''z'')]"

definition getTemplateBounds_body ::
  "(string option \<Rightarrow> 'n) \<Rightarrow> match_result list \<Rightarrow> match_result list \<Rightarrow> match_result list
     \<Rightarrow> match_result list \<Rightarrow> 'n brick_bounds option" where
  "getTemplateBounds_body num template minBounds maxBounds centers =
     (case template of
        [] \<Rightarrow> None
      | t # _ \<Rightarrow>
          if minBounds = [] \<or> maxBounds = [] \<or> centers = [] then None
          else
            (let templateName = groups t ''templateName'' in
             case (List.find (\<lambda>x. groups x ''templateName'' = templateName) minBounds,
                   List.find (\<lambda>x. groups x ''templateName'' = templateName) maxBounds,
                   List.find (\<lambda>x. groups x ''templateName'' = templateName) centers) of
               (Some mn, Some mx, Some ce) \<Rightarrow>
                 Some \<lparr>minBound = xyz num mn, maxBound = xyz num mx, center = xyz num ce\<rparr>
             | _ \<Rightarrow> None))"

definition getTemplateBounds ::
  "(string option \<Rightarrow> 'n) \<Rightarrow> player \<Rightarrow> (nat \<times> (error + match_result list)) list
     \<Rightarrow> 'n brick_bounds option promise" where
  "getTemplateBounds num this evs =
     (case Promise_all (length (getTemplateBounds_calls this)) evs of
        Pending \<Rightarrow> Pending
      | Rejected e \<Rightarrow> Rejected e
      | Fulfilled [template, minBounds, maxBounds, centers] \<Rightarrow>
          Fulfilled (getTemplateBounds_body num template minBounds maxBounds centers)
      | Fulfilled _ \<Rightarrow> Rejected TypeError)"

subsection \<open>Patterns compiled at run time\<close>

















subsection \<open>getPosition\<close>









text \<open>The names of the capture groups of a pattern, in the order of their opening
  parentheses (\<open>None\<close> for a group without a name), and the first of them.\<close>

primrec capture_groups :: "rx \<Rightarrow> string option list" where
  "capture_groups (RLit w) = []"
| "capture_groups RDot = []"
| "capture_groups RDigit = []"
| "capture_groups (RClass d cs) = []"
| "capture_groups RBol = []"
| "capture_groups REol = []"
| "capture_groups (RCat a b) = capture_groups a @ capture_groups b"
| "capture_groups (RAlt a b) = capture_groups a @ capture_groups b"
| "capture_groups (RGroup n r) = n # capture_groups r"
| "capture_groups (RPlus greedy r) = capture_groups r"

definition leading_capture :: "rx \<Rightarrow> string option" where
  "leading_capture r = (case capture_groups r of [] \<Rightarrow> None | n # _ \<Rightarrow> n)"




section \<open>The chunk collector\<close>

text \<open>
  Modelled from the spec: the chunk collector behind \<^verbatim>\<open>watchLogChunk\<close>, which is not part of
  these sources. It is the state machine of the specification's section 4.3: registered
  with a pattern and the name of its anchor field, it awaits a matching line whose anchor
  capture is the start sentinel (an index of zero); from that line on it appends every
  matching line in arrival order; it is sealed when the quiet-period timer fires with at
  least one entry accumulated; it times out when the overall timer fires before the
  anchor was seen. A terminal state is left by no event.
\<close>

datatype collector_state = AwaitingAnchor | Accumulating | Sealed | TimedOut

record collector =
  patternRegex :: rx
  anchorField :: string
  accumulated :: "match_result list"
  cstate :: collector_state

datatype collector_event = Line string | QuietTimer | OverallTimer

definition start_sentinel :: string where
  "start_sentinel = ''0''"

definition collector_new :: "rx \<Rightarrow> string \<Rightarrow> collector" where
  "collector_new p a =
     \<lparr>patternRegex = p, anchorField = a, accumulated = [], cstate = AwaitingAnchor\<rparr>"

text \<open>Modelled from the spec: one event of the chunk collector (a line of the console, or
  one of its two timers firing), after the state machine of section 4.3.\<close>

definition collector_step :: "collector \<Rightarrow> collector_event \<Rightarrow> collector" where
  "collector_step c ev =
     (case ev of
        Line l \<Rightarrow>
          (case rx_exec (patternRegex c) l of
             None \<Rightarrow> c
           | Some m \<Rightarrow>
               (case cstate c of
                  AwaitingAnchor \<Rightarrow>
                    if groups m (anchorField c) = Some start_sentinel
                    then c\<lparr>accumulated := [m], cstate := Accumulating\<rparr>
                    else c
                | Accumulating \<Rightarrow> c\<lparr>accumulated := accumulated c @ [m]\<rparr>
                | _ \<Rightarrow> c))
      | QuietTimer \<Rightarrow>
          (if cstate c = Accumulating \<and> accumulated c \<noteq> [] then c\<lparr>cstate := Sealed\<rparr> else c)
      | OverallTimer \<Rightarrow>
          (if cstate c = AwaitingAnchor then c\<lparr>cstate := TimedOut\<rparr> else c))"

definition collector_run :: "collector \<Rightarrow> collector_event list \<Rightarrow> collector" where
  "collector_run c evs = foldl collector_step c evs"

text \<open>The pattern of the example: \<^verbatim>\<open>/^(?<index>\d+)\) (?<val>.+)$/\<close>.\<close>

definition example_pattern :: rx where
  "example_pattern =
     seqs [RBol, named ''index'' digits, RLit '') '', named ''val'' anything, REol]"

section \<open>The terminal (src/cli/terminal.js)\<close>






















section \<open>Example data\<close>

definition example_omegga :: omegga_instance where
  "example_omegga =
     \<lparr>host_id = ''host-uuid'',
      getRoleSetup =
        \<lparr>roles = [\<lparr>role_name = ''Admin'',
                   permissions = [\<lparr>perm_name = ''Players.Ban'', perm_state = ''Allowed''\<rparr>,
                                  \<lparr>perm_name = ''Bricks.Load'', perm_state = ''Forbidden''\<rparr>]\<rparr>],
         defaultRole = \<lparr>role_name = ''Default'',
                        permissions = [\<lparr>perm_name = ''Bricks.Load'', perm_state = ''Forbidden''\<rparr>]\<rparr>\<rparr>,
      savedPlayerRoles = Map.empty\<rparr>"

text \<open>A player, and match results as the bulk queries deliver them; only their groups are
  read by the methods. The numeric coercion of the examples leaves the captured text as
  it is.\<close>

definition example_player :: player where
  "example_player =
     \<lparr>omegga = 0, name = ''Ann'', id' = ''u1'', controller = ''BP_PlayerController_C_1'',
      state = ''BP_PlayerState_C_1''\<rparr>"

definition example_match :: "string \<Rightarrow> (string \<times> string) list \<Rightarrow> match_result" where
  "example_match line kvs = \<lparr>index = 0, matched = line, groups = map_of kvs\<rparr>"

definition example_num :: "string option \<Rightarrow> string option" where
  "example_num v = v"

definition example_materials :: "string option \<Rightarrow> string option" where
  "example_materials n = (if n = Some ''3'' then Some ''BMC_Glow'' else None)"

definition ghost_owner_2 :: match_result where
  "ghost_owner_2 = example_match ''0) BrickGridPreviewActor ...''
     [(''index'', ''0''), (''actor'', ''BrickGridPreviewActor_4''),
      (''controller'', ''BP_PlayerController_C_2'')]"

definition paint_owner_1 :: match_result where
  "paint_owner_1 = example_match ''1) BP_Item_PaintTool_C ...''
     [(''index'', ''1''), (''actor'', ''BP_Item_PaintTool_C_7''),
      (''controller'', ''BP_PlayerController_C_1'')]"

definition paint_owner_2 :: match_result where
  "paint_owner_2 = example_match ''0) BP_Item_PaintTool_C ...''
     [(''index'', ''0''), (''actor'', ''BP_Item_PaintTool_C_8''),
      (''controller'', ''BP_PlayerController_C_2'')]"

definition paint_color_7 :: match_result where
  "paint_color_7 = example_match ''0) BP_Item_PaintTool_C ...''
     [(''index'', ''0''), (''actor'', ''BP_Item_PaintTool_C_7''), (''b'', ''0''),
      (''g'', ''128''), (''r'', ''255''), (''a'', ''255'')]"

definition paint_material_7 :: match_result where
  "paint_material_7 = example_match ''0) BP_Item_PaintTool_C ...''
     [(''index'', ''0''), (''actor'', ''BP_Item_PaintTool_C_7''), (''materialIndex'', ''3'')]"



definition template_of_2 :: match_result where
  "template_of_2 = example_match ''0) BP_PlayerController_C ...''
     [(''index'', ''0''), (''controller'', ''BP_PlayerController_C_2''),
      (''templateName'', ''BrickBuildingTemplate_5'')]"

definition bounds_5 :: match_result where
  "bounds_5 = example_match ''0) BrickBuildingTemplate ...''
     [(''index'', ''0''), (''templateName'', ''BrickBuildingTemplate_5''), (''x'', ''1''),
      (''y'', ''2''), (''z'', ''3'')]"

definition bounds_6 :: match_result where
  "bounds_6 = example_match ''0) BrickBuildingTemplate ...''
     [(''index'', ''0''), (''templateName'', ''BrickBuildingTemplate_6''), (''x'', ''1''),
      (''y'', ''2''), (''z'', ''3'')]"

















section \<open>Properties\<close>

subsection \<open>Facts about the matcher\<close>

lemma rx_exec_None_iff:
  "rx_exec r s = None \<longleftrightarrow> (\<forall>i\<le>length s. rx_match r s (i, Map.empty) = [])"
proof -
  let ?P = "\<lambda>i. rx_match r s (i, Map.empty) \<noteq> []"
  have a: "List.find ?P [0..<Suc (length s)] = None \<longleftrightarrow> (\<forall>i\<le>length s. \<not> ?P i)"
  proof -
    have "set [0..<Suc (length s)] = {i. i \<le> length s}"
      unfolding set_upt by auto
    then show ?thesis unfolding find_None_iff by blast
  qed
  have b: "List.find ?P [0..<Suc (length s)] = Some i \<Longrightarrow> ?P i" for i
    unfolding find_Some_iff by auto
  show ?thesis
  proof (cases "List.find ?P [0..<Suc (length s)]")
    case None
    then show ?thesis using a by (simp add: rx_exec_def)
  next
    case (Some i)
    with b have "?P i" by blast
    moreover from Some a have "\<not> (\<forall>i\<le>length s. \<not> ?P i)" by simp
    ultimately show ?thesis using Some
      by (auto simp: rx_exec_def split: list.splits)
  qed
qed

lemma seqs_Cons: "seqs (a # b # rs) = RCat a (seqs (b # rs))"
  by (simp add: seqs_def)

lemma rx_exec_anchored:
  "rx_exec (seqs (RBol # b # rs)) s = None \<longleftrightarrow> rx_match (seqs (b # rs)) s (0, Map.empty) = []"
  unfolding rx_exec_None_iff seqs_Cons[of RBol] by auto

lemma nonempty_Cat:
  "rx_match (RCat a b) s x \<noteq> [] \<longleftrightarrow> (\<exists>y\<in>set (rx_match a s x). rx_match b s y \<noteq> [])"
  by auto

lemma set_Lit:
  "set (rx_match (RLit w) s x) = (if prefix w (drop (fst x) s) then {(fst x + length w, snd x)} else {})"
  by (cases "prefix w (drop (fst x) s)") simp_all

lemma set_Group_None: "set (rx_match (RGroup None r) s x) = set (rx_match r s x)"
  by simp

lemma set_Alt: "set (rx_match (RAlt a b) s x) = set (rx_match a s x) \<union> set (rx_match b s x)"
  by simp

lemma set_Dot:
  "set (rx_match RDot s x) =
     (if fst x < length s \<and> \<not> line_terminator (s ! fst x) then {(Suc (fst x), snd x)} else {})"
  by (cases x) simp

lemma str_two:
  "prefix p s \<and> prefix a (drop (length p) s) \<and> length p + length a = length s \<longleftrightarrow> s = p @ a"
  by (auto simp: prefix_def)

lemma str_last:
  "prefix a s \<and> length a < length s \<and> \<not> P (s ! length a) \<and> Suc (length a) = length s
     \<longleftrightarrow> (\<exists>c. \<not> P c \<and> s = a @ [c])"
proof
  assume h: "prefix a s \<and> length a < length s \<and> \<not> P (s ! length a) \<and> Suc (length a) = length s"
  then obtain zs where zs: "s = a @ zs" by (auto simp: prefix_def)
  with h have "length zs = 1" by simp
  then obtain c where "zs = [c]" by (cases zs) auto
  with zs h show "\<exists>c. \<not> P c \<and> s = a @ [c]" by auto
next
  assume "\<exists>c. \<not> P c \<and> s = a @ [c]"
  then show "prefix a s \<and> length a < length s \<and> \<not> P (s ! length a) \<and> Suc (length a) = length s"
    by auto
qed

lemma lits_end:
  "rx_match (seqs [RLit p, RGroup None (RAlt (RLit a) (RLit b)), REol]) s (0, g) \<noteq> [] \<longleftrightarrow>
     s = p @ a \<or> s = p @ b"
proof -
  have "rx_match (seqs [RLit p, RGroup None (RAlt (RLit a) (RLit b)), REol]) s (0, g) \<noteq> [] \<longleftrightarrow>
     (prefix p s \<and> prefix a (drop (length p) s) \<and> length p + length a = length s) \<or>
     (prefix p s \<and> prefix b (drop (length p) s) \<and> length p + length b = length s)"
    unfolding seqs_def
    by (simp add: nonempty_Cat set_Lit set_Group_None set_Alt del: rx_match.simps(1,7,8,9))
  then show ?thesis unfolding str_two .
qed

lemma lits_dot_end:
  "rx_match (seqs [RGroup None (RAlt (RLit a) (RLit b)), RDot, REol]) s (0, g) \<noteq> [] \<longleftrightarrow>
    (\<exists>c. \<not> line_terminator c \<and> (s = a @ [c] \<or> s = b @ [c]))"
proof -
  have "rx_match (seqs [RGroup None (RAlt (RLit a) (RLit b)), RDot, REol]) s (0, g) \<noteq> [] \<longleftrightarrow>
     (prefix a s \<and> length a < length s \<and> \<not> line_terminator (s ! length a) \<and> Suc (length a) = length s) \<or>
     (prefix b s \<and> length b < length s \<and> \<not> line_terminator (s ! length b) \<and> Suc (length b) = length s)"
    unfolding seqs_def
    by (simp add: nonempty_Cat set_Lit set_Group_None set_Alt set_Dot del: rx_match.simps(1,2,7,8,9))
  then show ?thesis unfolding str_last by blast
qed

subsection \<open>The exit matcher\<close>

lemma truthy_match: "truthy (js_string_match s r) \<longleftrightarrow> rx_exec r s \<noteq> None"
  by (simp add: js_string_match_def split: option.splits)

lemma exit_generator_iff:
  "truthy (js_string_match s exit_generator_rx) \<longleftrightarrow> s = ''LogExit'' \<or> s = ''LogAuthManager''"
  unfolding truthy_match exit_generator_rx_def rx_exec_anchored lits_end by simp

lemma exit_data_iff:
  "truthy (js_string_match s exit_data_rx) \<longleftrightarrow>
     (\<exists>c. \<not> line_terminator c \<and> (s = ''Shutting down Auth Manager'' @ [c] \<or> s = ''Exiting'' @ [c]))"
  unfolding truthy_match exit_data_rx_def rx_exec_anchored lits_dot_end by simp

lemma exit_pattern_truthy:
  "truthy (exit_pattern line (Some m)) \<longleftrightarrow>
     truthy (js_string_match (generator m) exit_generator_rx) \<and>
     truthy (js_string_match (data m) exit_data_rx)"
  by (cases "js_string_match (generator m) exit_generator_rx") (simp_all add: exit_pattern_def)

text \<open>
  C4 (amended). The pattern of the exit matcher returns \<^verbatim>\<open>undefined\<close>, which is falsy, when
  the tokenizer's result is absent, and never depends on the raw line. For a tokenized
  line it is truthy exactly when the generator is \<^verbatim>\<open>LogExit\<close> or \<^verbatim>\<open>LogAuthManager\<close> and the
  data is \<^verbatim>\<open>Shutting down Auth Manager\<close> or \<^verbatim>\<open>Exiting\<close> followed by exactly one more code
  unit that is not a line terminator. The callback appends the event \<^verbatim>\<open>exit\<close>, without
  arguments, to the events emitted and does nothing else, whatever it is passed.
\<close>

theorem exit_matcher_exact:
  "exit_pattern line None = Undefined
   \<and> \<not> truthy (exit_pattern line None)
   \<and> exit_pattern line logMatch = exit_pattern line' logMatch
   \<and> (truthy (exit_pattern line (Some m)) \<longleftrightarrow>
        (generator m = ''LogExit'' \<or> generator m = ''LogAuthManager'') \<and>
        (\<exists>c. \<not> line_terminator c \<and>
             (data m = ''Shutting down Auth Manager'' @ [c] \<or> data m = ''Exiting'' @ [c])))
   \<and> exit_callback passed emitted = emitted @ [(''exit'', [])]"
  unfolding exit_pattern_truthy exit_generator_iff exit_data_iff
  by (simp add: exit_pattern_def exit_callback_def)

theorem exit_matcher_exact_witness:
  "truthy (exit_pattern ''[log] LogExit: Exiting.''
             (Some \<lparr>generator = ''LogExit'', data = ''Exiting.''\<rparr>))
   \<and> \<not> truthy (exit_pattern ''LogExit: Exit''
             (Some \<lparr>generator = ''LogExit'', data = ''Exit''\<rparr>))
   \<and> exit_callback Null [] = [(''exit'', [])]"
  using exit_matcher_exact[of "''[log] LogExit: Exiting.''" "None" "''''"
          "\<lparr>generator = ''LogExit'', data = ''Exiting.''\<rparr>" Null "[]"]
        exit_matcher_exact[of "''LogExit: Exit''" "None" "''''"
          "\<lparr>generator = ''LogExit'', data = ''Exit''\<rparr>" Null "[]"]
  by (simp add: line_terminator_def)

text \<open>The claim as stated fails where the one more character is a line terminator: the
  generator is \<^verbatim>\<open>LogExit\<close>, the data is \<^verbatim>\<open>Exiting\<close> followed by exactly one character, a
  carriage return, and what the pattern returns is falsy.\<close>

theorem exit_matcher_counterexample:
  "generator \<lparr>generator = ''LogExit'', data = ''Exiting'' @ [CHR 0x0D]\<rparr> = ''LogExit''
   \<and> (\<exists>c. data \<lparr>generator = ''LogExit'', data = ''Exiting'' @ [CHR 0x0D]\<rparr> = ''Exiting'' @ [c])
   \<and> \<not> truthy (exit_pattern ''LogExit: Exiting''
        (Some \<lparr>generator = ''LogExit'', data = ''Exiting'' @ [CHR 0x0D]\<rparr>))"
  by code_simp

subsection \<open>Clone and raw\<close>

text \<open>
  C8. For every Player \<open>p\<close> of the store, \<^verbatim>\<open>p.clone()\<close> allocates a new Player (a reference
  that was not in the store, so different from \<open>p\<close>) whose name, id, controller and state
  are those of \<open>p\<close> and whose \<^verbatim>\<open>getOmegga()\<close> is the same Omegga instance; so does
  \<^verbatim>\<open>new Player(p.getOmegga(), ...p.raw())\<close>; and both leave \<open>p\<close>, and every other Player that
  existed, as it was.
\<close>

theorem clone_raw_roundtrip:
  assumes "p < length h"
  shows "\<exists>q h'. clone h p = Inr (q, h')
           \<and> Player_from_raw h p = Inr (q, h')
           \<and> q \<notin> {..<length h} \<and> q \<noteq> p \<and> q < length h'
           \<and> name (h' ! q) = name (h ! p) \<and> id' (h' ! q) = id' (h ! p)
           \<and> controller (h' ! q) = controller (h ! p) \<and> state (h' ! q) = state (h ! p)
           \<and> getOmegga h' q = getOmegga h p
           \<and> raw h' q = raw h p
           \<and> h' ! p = h ! p
           \<and> take (length h) h' = h"
  using assms
  by (simp add: clone_def Player_from_raw_def getOmegga_def raw_def Player_new_def nth_append)

theorem clone_raw_roundtrip_witness:
  "(0::nat) < length [\<lparr>omegga = 7, name = ''Ann'', id' = ''u1'', controller = ''BP_PlayerController_C_1'', state = ''BP_PlayerState_C_1''\<rparr>]
   \<and> clone [\<lparr>omegga = 7, name = ''Ann'', id' = ''u1'', controller = ''BP_PlayerController_C_1'', state = ''BP_PlayerState_C_1''\<rparr>] 0
      = Inr (1, [\<lparr>omegga = 7, name = ''Ann'', id' = ''u1'', controller = ''BP_PlayerController_C_1'', state = ''BP_PlayerState_C_1''\<rparr>,
                 \<lparr>omegga = 7, name = ''Ann'', id' = ''u1'', controller = ''BP_PlayerController_C_1'', state = ''BP_PlayerState_C_1''\<rparr>])"
  using clone_raw_roundtrip[of 0 "[\<lparr>omegga = 7, name = ''Ann'', id' = ''u1'', controller = ''BP_PlayerController_C_1'', state = ''BP_PlayerState_C_1''\<rparr>]"]
  by (simp add: clone_def Player_new_def)

subsection \<open>The permissions of the host\<close>

lemma foldl_set_prop_dom:
  "dom (foldl set_prop m es) = dom m \<union> fst ` set es"
  by (induction es arbitrary: m) (auto simp: set_prop_def)

lemma foldl_set_prop_const:
  "\<forall>k v. m k = Some v \<longrightarrow> v = c \<Longrightarrow> \<forall>e\<in>set es. snd e = c \<Longrightarrow>
     foldl set_prop m es k = Some v \<Longrightarrow> v = c"
proof (induction es arbitrary: m)
  case Nil
  then show ?case by simp
next
  case (Cons e es)
  have "\<forall>k v. (set_prop m e) k = Some v \<longrightarrow> v = c"
    using Cons.prems(1,2) by (auto simp: set_prop_def)
  moreover have "\<forall>e\<in>set es. snd e = c" using Cons.prems(2) by simp
  moreover have "foldl set_prop (set_prop m e) es k = Some v"
    using Cons.prems(3) by simp
  ultimately show ?case by (rule Cons.IH)
qed

lemma host_entries_names:
  "fst ` set (map (\<lambda>p. (perm_name p, JBool True)) (permissions d) @
              concat (map (\<lambda>r. map (\<lambda>p. (perm_name p, JBool True)) (permissions r)) rs))
   = perm_name ` set (permissions d) \<union> (\<Union>r\<in>set rs. perm_name ` set (permissions r))"
  by (auto simp: image_iff) force+

text \<open>
  C9. For every Omegga instance (so for every role setup) and the id of its host, the
  object that \<^verbatim>\<open>Player.getPermissions\<close> returns is frozen, its keys are exactly the names
  of the permissions of the default role and of every role of the setup, and each of its
  values is \<^verbatim>\<open>true\<close>.
\<close>

theorem host_permissions_all_true:
  assumes "host_id om = i"
  shows "frozen (getPermissions om i)
    \<and> dom (props (getPermissions om i)) =
        perm_name ` set (permissions (defaultRole (getRoleSetup om)))
        \<union> (\<Union>r\<in>set (roles (getRoleSetup om)). perm_name ` set (permissions r))
    \<and> (\<forall>k\<in>dom (props (getPermissions om i)). props (getPermissions om i) k = Some (JBool True))"
proof -
  let ?es = "map (\<lambda>p. (perm_name p, JBool True)) (permissions (defaultRole (getRoleSetup om))) @
             concat (map (\<lambda>r. map (\<lambda>p. (perm_name p, JBool True)) (permissions r))
                       (roles (getRoleSetup om)))"
  have g: "getPermissions om i = freeze (fromEntries ?es)"
    using assms by (simp add: getPermissions_def Let_def)
  have p: "props (getPermissions om i) = foldl set_prop Map.empty ?es"
    unfolding g by (simp add: freeze_def fromEntries_def)
  have "frozen (getPermissions om i)"
    unfolding g by (simp add: freeze_def)
  moreover have "dom (props (getPermissions om i)) =
        perm_name ` set (permissions (defaultRole (getRoleSetup om)))
        \<union> (\<Union>r\<in>set (roles (getRoleSetup om)). perm_name ` set (permissions r))"
    unfolding p foldl_set_prop_dom host_entries_names by simp
  moreover have "\<forall>k\<in>dom (props (getPermissions om i)). props (getPermissions om i) k = Some (JBool True)"
  proof
    fix k assume "k \<in> dom (props (getPermissions om i))"
    then obtain v where v: "props (getPermissions om i) k = Some v" by auto
    have a: "\<forall>e\<in>set ?es. snd e = JBool True" by auto
    have b: "\<forall>k v. (Map.empty :: string \<rightharpoonup> jsbool) k = Some v \<longrightarrow> v = JBool True" by simp
    have c: "foldl set_prop Map.empty ?es k = Some v" using v unfolding p .
    have "v = JBool True" by (rule foldl_set_prop_const[OF b a c])
    with v show "props (getPermissions om i) k = Some (JBool True)" by simp
  qed
  ultimately show ?thesis by blast
qed

theorem host_permissions_all_true_witness:
  "host_id example_omegga = ''host-uuid''
   \<and> frozen (getPermissions example_omegga ''host-uuid'')
   \<and> dom (props (getPermissions example_omegga ''host-uuid'')) = {''Bricks.Load'', ''Players.Ban''}
   \<and> props (getPermissions example_omegga ''host-uuid'') ''Bricks.Load'' = Some (JBool True)
   \<and> props (getPermissions example_omegga ''host-uuid'') ''Players.Ban'' = Some (JBool True)"
proof -
  have h: "host_id example_omegga = ''host-uuid''" by (simp add: example_omegga_def)
  show ?thesis
    using h host_permissions_all_true[OF h]
    by (auto simp: example_omegga_def)
qed

subsection \<open>The anchor of the bulk queries\<close>

lemma leading_capture_index:
  "leading_capture (seqs (RBol # RGroup n r # x # rs)) = n"
  by (simp add: leading_capture_def seqs_def)

text \<open>
  C5. Every \<^verbatim>\<open>watchLogChunk\<close> call of the query methods of a Player (two of
  \<^verbatim>\<open>getGhostBrick\<close>, four of \<^verbatim>\<open>getPaint\<close>, four of \<^verbatim>\<open>getTemplateBounds\<close>) passes the option
  \<^verbatim>\<open>first: 'index'\<close>, and the first capture group of its pattern is the named group
  \<^verbatim>\<open>index\<close>.
\<close>

theorem chunk_calls_anchor_on_index:
  "\<forall>c\<in>set (getGhostBrick_calls @ getPaint_calls @ getTemplateBounds_calls this).
     first c = Some ''index'' \<and> leading_capture (pattern c) = Some ''index''"
  by (simp add: getGhostBrick_calls_def getPaint_calls_def getTemplateBounds_calls_def
      ghost_ownerRegExp_def transformParamsRegExp_def paint_ownerRegExp_def colorRegExp_def
      materialRegExp_def materialAlphaRegExp_def brickTemplateRegExp_def minBoundsRegExp_def
      maxBoundsRegExp_def centerRegExp_def boundsRegExp_def leading_capture_index)

theorem chunk_calls_anchor_on_index_witness:
  "getPaint_calls ! 2 \<in> set (getGhostBrick_calls @ getPaint_calls @ getTemplateBounds_calls
       \<lparr>omegga = 0, name = ''Ann'', id' = ''u1'', controller = ''BP_PlayerController_C_1'', state = ''s''\<rparr>)
   \<and> cmd (getPaint_calls ! 2) = ''GetAll BP_Item_PaintTool_C SelectedMaterialId''
   \<and> first (getPaint_calls ! 2) = Some ''index''
   \<and> leading_capture (pattern (getPaint_calls ! 2)) = Some ''index''
   \<and> capture_groups (pattern (getPaint_calls ! 2))
        = [Some ''index'', None, Some ''actor'', Some ''materialIndex'']"
proof -
  have m: "getPaint_calls ! 2 \<in> set (getGhostBrick_calls @ getPaint_calls @ getTemplateBounds_calls
       \<lparr>omegga = 0, name = ''Ann'', id' = ''u1'', controller = ''BP_PlayerController_C_1'', state = ''s''\<rparr>)"
    by (simp add: getPaint_calls_def)
  have c: "capture_groups (pattern (getPaint_calls ! 2))
        = [Some ''index'', None, Some ''actor'', Some ''materialIndex'']"
    by (simp add: getPaint_calls_def materialRegExp_def seqs_def)
  have d: "cmd (getPaint_calls ! 2) = ''GetAll BP_Item_PaintTool_C SelectedMaterialId''"
    by (simp add: getPaint_calls_def)
  from chunk_calls_anchor_on_index[rule_format, OF m] m c d show ?thesis by blast
qed

subsection \<open>Facts about the wait-all join\<close>

lemma join_step_settled:
  "settled j \<noteq> Pending \<Longrightarrow> join_step j ev = j"
  by (cases "settled j") (simp_all add: join_step_def)

lemma join_run_settled:
  "settled j \<noteq> Pending \<Longrightarrow> foldl join_step j evs = j"
  by (induction evs) (simp_all add: join_step_settled)

lemma join_step_reject:
  "settled j = Pending \<Longrightarrow> settled (join_step j (i, Inl e)) = Rejected e"
  by (simp add: join_step_def)

lemma Promise_all_reject:
  assumes "Promise_all n evs = Pending"
  shows "Promise_all n (evs @ (i, Inl e) # later) = Rejected e"
proof -
  let ?j = "foldl join_step (join_start n) evs"
  have "settled (join_step ?j (i, Inl e)) = Rejected e"
    using assms by (simp add: Promise_all_def join_step_reject)
  then have "foldl join_step (join_step ?j (i, Inl e)) later = join_step ?j (i, Inl e)"
    by (simp add: join_run_settled)
  then show ?thesis
    by (simp add: Promise_all_def \<open>settled (join_step ?j (i, Inl e)) = Rejected e\<close>)
qed



subsection \<open>getPaint\<close>




subsection \<open>Missing data in the bulk queries\<close>

lemma find_no_entry: "\<forall>x\<in>set xs. \<not> P x \<Longrightarrow> List.find P xs = None"
  by (simp add: find_None_iff)

lemma getGhostBrick_joined:
  "Promise_all 2 evs = Fulfilled [owners, tps] \<Longrightarrow>
     getGhostBrick num this evs = Fulfilled (getGhostBrick_body num (controller this) owners tps)"
  by (simp add: getGhostBrick_def getGhostBrick_calls_def numeral_2_eq_2)

lemma getPaint_joined:
  "Promise_all 4 evs = Fulfilled [owners, col, mat, alpha] \<Longrightarrow>
     getPaint num materials this evs =
       Fulfilled (getPaint_body num materials (controller this) owners col mat alpha)"
proof -
  have "length getPaint_calls = 4" by (simp add: getPaint_calls_def)
  then show "Promise_all 4 evs = Fulfilled [owners, col, mat, alpha] \<Longrightarrow> ?thesis"
    by (simp add: getPaint_def)
qed

lemma getTemplateBounds_joined:
  "Promise_all 4 evs = Fulfilled [template, mins, maxs, centers] \<Longrightarrow>
     getTemplateBounds num this evs =
       Fulfilled (getTemplateBounds_body num template mins maxs centers)"
proof -
  have "length (getTemplateBounds_calls this) = 4" by (simp add: getTemplateBounds_calls_def)
  then show "Promise_all 4 evs = Fulfilled [template, mins, maxs, centers] \<Longrightarrow> ?thesis"
    by (simp add: getTemplateBounds_def)
qed

lemma getGhostBrick_body_no_owner:
  "\<forall>ow\<in>set owners. groups ow ''controller'' \<noteq> Some c \<Longrightarrow>
     getGhostBrick_body num c owners tps = None"
  by (simp add: getGhostBrick_body_def find_no_entry)

lemma getGhostBrick_body_no_actor:
  "List.find (\<lambda>ow. groups ow ''controller'' = Some c) owners = Some ow \<Longrightarrow>
   \<forall>t\<in>set tps. groups t ''actor'' \<noteq> groups ow ''actor'' \<Longrightarrow>
     getGhostBrick_body num c owners tps = None"
  by (simp add: getGhostBrick_body_def find_no_entry)

lemma getPaint_body_no_owner:
  "\<forall>ow\<in>set owners. groups ow ''controller'' \<noteq> Some c \<Longrightarrow>
     getPaint_body num materials c owners col mat alpha = None"
  by (simp add: getPaint_body_def find_no_entry)

lemma getPaint_body_no_actor:
  "List.find (\<lambda>ow. groups ow ''controller'' = Some c) owners = Some ow \<Longrightarrow>
   (\<forall>x\<in>set col. groups x ''actor'' \<noteq> groups ow ''actor'')
   \<or> (\<forall>x\<in>set mat. groups x ''actor'' \<noteq> groups ow ''actor'')
   \<or> (\<forall>x\<in>set alpha. groups x ''actor'' \<noteq> groups ow ''actor'') \<Longrightarrow>
     getPaint_body num materials c owners col mat alpha = None"
  by (auto simp: getPaint_body_def Let_def dest!: find_no_entry split: option.splits)

lemma getTemplateBounds_body_empty:
  "template = [] \<or> mins = [] \<or> maxs = [] \<or> centers = [] \<Longrightarrow>
     getTemplateBounds_body num template mins maxs centers = None"
  by (auto simp: getTemplateBounds_body_def split: list.splits)

lemma getTemplateBounds_body_no_template:
  "(\<forall>x\<in>set mins. groups x ''templateName'' \<noteq> groups t ''templateName'')
   \<or> (\<forall>x\<in>set maxs. groups x ''templateName'' \<noteq> groups t ''templateName'')
   \<or> (\<forall>x\<in>set centers. groups x ''templateName'' \<noteq> groups t ''templateName'') \<Longrightarrow>
     getTemplateBounds_body num (t # ts) mins maxs centers = None"
  by (auto simp: getTemplateBounds_body_def Let_def dest!: find_no_entry split: option.splits)

lemma getGhostBrick_rejects:
  assumes "getGhostBrick num this evs = Pending"
  shows "getGhostBrick num this (evs @ (i, Inl e) # rest) = Rejected e"
proof -
  from assms have "Promise_all (length getGhostBrick_calls) evs = Pending"
    by (auto simp: getGhostBrick_def split: promise.splits list.splits)
  then show ?thesis by (simp add: getGhostBrick_def Promise_all_reject)
qed

lemma getPaint_rejects:
  assumes "getPaint num materials this evs = Pending"
  shows "getPaint num materials this (evs @ (i, Inl e) # rest) = Rejected e"
proof -
  from assms have "Promise_all (length getPaint_calls) evs = Pending"
    by (auto simp: getPaint_def split: promise.splits list.splits)
  then show ?thesis by (simp add: getPaint_def Promise_all_reject)
qed

lemma getTemplateBounds_rejects:
  assumes "getTemplateBounds num this evs = Pending"
  shows "getTemplateBounds num this (evs @ (i, Inl e) # rest) = Rejected e"
proof -
  from assms have "Promise_all (length (getTemplateBounds_calls this)) evs = Pending"
    by (auto simp: getTemplateBounds_def split: promise.splits list.splits)
  then show ?thesis by (simp add: getTemplateBounds_def Promise_all_reject)
qed

text \<open>
  C1 (amended). Whenever all the bulk queries of a method are fulfilled, missing data makes
  the method resolve with \<^verbatim>\<open>undefined\<close>: \<^verbatim>\<open>getGhostBrick\<close> and \<^verbatim>\<open>getPaint\<close> when no owner entry
  has the player's controller, or when an owner is found and one of the other sequences
  has no entry for its actor; \<^verbatim>\<open>getTemplateBounds\<close> when one of its four sequences is empty,
  or when one of the bounds sequences has no entry for the template named by the first
  template entry (whose controller it does not compare). None of the three catches a
  rejection: when one of its bulk queries is rejected while the method is pending (a
  timeout, for one), the method is rejected with the same reason.
\<close>

theorem derived_queries_missing_data:
  "(Promise_all 2 evs = Fulfilled [owners, tps]
      \<and> (\<forall>ow\<in>set owners. groups ow ''controller'' \<noteq> Some (controller this))
      \<longrightarrow> getGhostBrick num this evs = Fulfilled None)
   \<and> (Promise_all 2 evs = Fulfilled [owners, tps]
      \<and> List.find (\<lambda>ow. groups ow ''controller'' = Some (controller this)) owners = Some ow
      \<and> (\<forall>t\<in>set tps. groups t ''actor'' \<noteq> groups ow ''actor'')
      \<longrightarrow> getGhostBrick num this evs = Fulfilled None)
   \<and> (Promise_all 4 evs = Fulfilled [owners, col, mat, alpha]
      \<and> (\<forall>ow\<in>set owners. groups ow ''controller'' \<noteq> Some (controller this))
      \<longrightarrow> getPaint num materials this evs = Fulfilled None)
   \<and> (Promise_all 4 evs = Fulfilled [owners, col, mat, alpha]
      \<and> List.find (\<lambda>ow. groups ow ''controller'' = Some (controller this)) owners = Some ow
      \<and> ((\<forall>x\<in>set col. groups x ''actor'' \<noteq> groups ow ''actor'')
         \<or> (\<forall>x\<in>set mat. groups x ''actor'' \<noteq> groups ow ''actor'')
         \<or> (\<forall>x\<in>set alpha. groups x ''actor'' \<noteq> groups ow ''actor''))
      \<longrightarrow> getPaint num materials this evs = Fulfilled None)
   \<and> (Promise_all 4 evs = Fulfilled [template, mins, maxs, centers]
      \<and> (template = [] \<or> mins = [] \<or> maxs = [] \<or> centers = [])
      \<longrightarrow> getTemplateBounds num this evs = Fulfilled None)
   \<and> (Promise_all 4 evs = Fulfilled [t # ts, mins, maxs, centers]
      \<and> ((\<forall>x\<in>set mins. groups x ''templateName'' \<noteq> groups t ''templateName'')
         \<or> (\<forall>x\<in>set maxs. groups x ''templateName'' \<noteq> groups t ''templateName'')
         \<or> (\<forall>x\<in>set centers. groups x ''templateName'' \<noteq> groups t ''templateName''))
      \<longrightarrow> getTemplateBounds num this evs = Fulfilled None)
   \<and> (getGhostBrick num this evs = Pending
      \<longrightarrow> getGhostBrick num this (evs @ (i, Inl e) # rest) = Rejected e)
   \<and> (getPaint num materials this evs = Pending
      \<longrightarrow> getPaint num materials this (evs @ (i, Inl e) # rest) = Rejected e)
   \<and> (getTemplateBounds num this evs = Pending
      \<longrightarrow> getTemplateBounds num this (evs @ (i, Inl e) # rest) = Rejected e)"
proof (intro conjI impI; (elim conjE)?)
  show "getGhostBrick num this evs = Fulfilled None"
    if "Promise_all 2 evs = Fulfilled [owners, tps]"
      and "\<forall>ow\<in>set owners. groups ow ''controller'' \<noteq> Some (controller this)"
    using that by (simp add: getGhostBrick_joined getGhostBrick_body_no_owner)
  show "getGhostBrick num this evs = Fulfilled None"
    if "Promise_all 2 evs = Fulfilled [owners, tps]"
      and "List.find (\<lambda>ow. groups ow ''controller'' = Some (controller this)) owners = Some ow"
      and "\<forall>t\<in>set tps. groups t ''actor'' \<noteq> groups ow ''actor''"
    using that by (simp add: getGhostBrick_joined getGhostBrick_body_no_actor)
  show "getPaint num materials this evs = Fulfilled None"
    if "Promise_all 4 evs = Fulfilled [owners, col, mat, alpha]"
      and "\<forall>ow\<in>set owners. groups ow ''controller'' \<noteq> Some (controller this)"
    using that by (simp add: getPaint_joined getPaint_body_no_owner)
  show "getPaint num materials this evs = Fulfilled None"
    if "Promise_all 4 evs = Fulfilled [owners, col, mat, alpha]"
      and "List.find (\<lambda>ow. groups ow ''controller'' = Some (controller this)) owners = Some ow"
      and "(\<forall>x\<in>set col. groups x ''actor'' \<noteq> groups ow ''actor'')
         \<or> (\<forall>x\<in>set mat. groups x ''actor'' \<noteq> groups ow ''actor'')
         \<or> (\<forall>x\<in>set alpha. groups x ''actor'' \<noteq> groups ow ''actor'')"
    using that by (simp add: getPaint_joined getPaint_body_no_actor)
  show "getTemplateBounds num this evs = Fulfilled None"
    if "Promise_all 4 evs = Fulfilled [template, mins, maxs, centers]"
      and "template = [] \<or> mins = [] \<or> maxs = [] \<or> centers = []"
    using that by (simp add: getTemplateBounds_joined getTemplateBounds_body_empty)
  show "getTemplateBounds num this evs = Fulfilled None"
    if "Promise_all 4 evs = Fulfilled [t # ts, mins, maxs, centers]"
      and "(\<forall>x\<in>set mins. groups x ''templateName'' \<noteq> groups t ''templateName'')
         \<or> (\<forall>x\<in>set maxs. groups x ''templateName'' \<noteq> groups t ''templateName'')
         \<or> (\<forall>x\<in>set centers. groups x ''templateName'' \<noteq> groups t ''templateName'')"
    using that by (simp add: getTemplateBounds_joined getTemplateBounds_body_no_template)
  show "getGhostBrick num this (evs @ (i, Inl e) # rest) = Rejected e"
    if "getGhostBrick num this evs = Pending"
    using that by (rule getGhostBrick_rejects)
  show "getPaint num materials this (evs @ (i, Inl e) # rest) = Rejected e"
    if "getPaint num materials this evs = Pending"
    using that by (rule getPaint_rejects)
  show "getTemplateBounds num this (evs @ (i, Inl e) # rest) = Rejected e"
    if "getTemplateBounds num this evs = Pending"
    using that by (rule getTemplateBounds_rejects)
qed

lemmas join_eval = Promise_all_def join_start_def join_step_def Let_def numeral_2_eq_2
  numeral_eq_Suc

theorem derived_queries_missing_data_witness:
  "Promise_all 2 [(1, Inr []), (0, Inr [ghost_owner_2])] = Fulfilled [[ghost_owner_2], []]
   \<and> groups ghost_owner_2 ''controller'' \<noteq> Some (controller example_player)
   \<and> getGhostBrick example_num example_player [(1, Inr []), (0, Inr [ghost_owner_2])]
       = Fulfilled None
   \<and> Promise_all 4 [(0, Inr [paint_owner_2, paint_owner_1]), (1, Inr [paint_color_7]),
                     (2, Inr [paint_material_7]), (3, Inr [])]
       = Fulfilled [[paint_owner_2, paint_owner_1], [paint_color_7], [paint_material_7], []]
   \<and> List.find (\<lambda>ow. groups ow ''controller'' = Some (controller example_player))
         [paint_owner_2, paint_owner_1] = Some paint_owner_1
   \<and> getPaint example_num example_materials example_player
         [(0, Inr [paint_owner_2, paint_owner_1]), (1, Inr [paint_color_7]),
          (2, Inr [paint_material_7]), (3, Inr [])] = Fulfilled None
   \<and> Promise_all 4 [(0, Inr [template_of_2]), (1, Inr [bounds_6]), (2, Inr [bounds_5]),
                     (3, Inr [bounds_5])]
       = Fulfilled [[template_of_2], [bounds_6], [bounds_5], [bounds_5]]
   \<and> groups bounds_6 ''templateName'' \<noteq> groups template_of_2 ''templateName''
   \<and> getTemplateBounds example_num example_player
         [(0, Inr [template_of_2]), (1, Inr [bounds_6]), (2, Inr [bounds_5]),
          (3, Inr [bounds_5])] = Fulfilled None
   \<and> getPaint example_num example_materials example_player [(1, Inr [paint_color_7])] = Pending
   \<and> getPaint example_num example_materials example_player
         ([(1, Inr [paint_color_7])] @ (0, Inl TimeoutError) # [(2, Inr [paint_material_7])])
       = Rejected TimeoutError"
proof -
  note c1 = derived_queries_missing_data[THEN conjunct1, rule_format]
  note c4 = derived_queries_missing_data[THEN conjunct2, THEN conjunct2, THEN conjunct2,
      THEN conjunct1, rule_format]
  note c6 = derived_queries_missing_data[THEN conjunct2, THEN conjunct2, THEN conjunct2,
      THEN conjunct2, THEN conjunct2, THEN conjunct1, rule_format]
  note c8 = derived_queries_missing_data[THEN conjunct2, THEN conjunct2, THEN conjunct2,
      THEN conjunct2, THEN conjunct2, THEN conjunct2, THEN conjunct2, THEN conjunct1,
      rule_format]
  have g1: "Promise_all 2 [(1, Inr []), (0, Inr [ghost_owner_2])] = Fulfilled [[ghost_owner_2], []]"
    by (simp add: join_eval)
  have g2: "groups ghost_owner_2 ''controller'' \<noteq> Some (controller example_player)"
    by (simp add: ghost_owner_2_def example_match_def example_player_def)
  have g3: "getGhostBrick example_num example_player [(1, Inr []), (0, Inr [ghost_owner_2])]
       = Fulfilled None"
    by (rule c1, rule conjI, rule g1) (simp add: g2)
  have p1: "Promise_all 4 [(0, Inr [paint_owner_2, paint_owner_1]), (1, Inr [paint_color_7]),
                     (2, Inr [paint_material_7]), (3, Inr [])]
       = Fulfilled [[paint_owner_2, paint_owner_1], [paint_color_7], [paint_material_7], []]"
    by (simp add: join_eval)
  have p2: "List.find (\<lambda>ow. groups ow ''controller'' = Some (controller example_player))
         [paint_owner_2, paint_owner_1] = Some paint_owner_1"
    by (simp add: paint_owner_1_def paint_owner_2_def example_match_def example_player_def)
  have p3: "getPaint example_num example_materials example_player
         [(0, Inr [paint_owner_2, paint_owner_1]), (1, Inr [paint_color_7]),
          (2, Inr [paint_material_7]), (3, Inr [])] = Fulfilled None"
    by (rule c4, rule conjI, rule p1, rule conjI, rule p2) simp
  have t1: "Promise_all 4 [(0, Inr [template_of_2]), (1, Inr [bounds_6]), (2, Inr [bounds_5]),
                     (3, Inr [bounds_5])]
       = Fulfilled [[template_of_2], [bounds_6], [bounds_5], [bounds_5]]"
    by (simp add: join_eval)
  have t2: "groups bounds_6 ''templateName'' \<noteq> groups template_of_2 ''templateName''"
    by (simp add: bounds_6_def template_of_2_def example_match_def)
  have t3: "getTemplateBounds example_num example_player
         [(0, Inr [template_of_2]), (1, Inr [bounds_6]), (2, Inr [bounds_5]),
          (3, Inr [bounds_5])] = Fulfilled None"
    by (rule c6, rule conjI, rule t1) (simp add: t2)
  have r1: "getPaint example_num example_materials example_player [(1, Inr [paint_color_7])]
       = Pending"
    by (simp add: getPaint_def getPaint_calls_def join_eval)
  have r2: "getPaint example_num example_materials example_player
         ([(1, Inr [paint_color_7])] @ (0, Inl TimeoutError) # [(2, Inr [paint_material_7])])
       = Rejected TimeoutError"
    by (rule c8, rule r1)
  from g1 g2 g3 p1 p2 p3 t1 t2 t3 r1 r2 show ?thesis by blast
qed

text \<open>The claim as stated fails in two places. A timeout of the first bulk query rejects
  \<^verbatim>\<open>getGhostBrick\<close> instead of resolving it with \<^verbatim>\<open>undefined\<close>. And \<^verbatim>\<open>getTemplateBounds\<close> resolves
  with bounds although no collected entry has the player's controller, since it takes the
  first template entry as it comes.\<close>

theorem derived_queries_counterexample:
  "getGhostBrick example_num example_player [(0, Inl TimeoutError)] = Rejected TimeoutError
   \<and> getGhostBrick example_num example_player [(0, Inl TimeoutError)] \<noteq> Fulfilled None
   \<and> groups template_of_2 ''controller'' \<noteq> Some (controller example_player)
   \<and> getTemplateBounds example_num example_player
        [(0, Inr [template_of_2]), (1, Inr [bounds_5]), (2, Inr [bounds_5]), (3, Inr [bounds_5])]
      = Fulfilled (Some \<lparr>minBound = [Some ''1'', Some ''2'', Some ''3''],
                         maxBound = [Some ''1'', Some ''2'', Some ''3''],
                         center = [Some ''1'', Some ''2'', Some ''3'']\<rparr>)"
  by (simp add: getGhostBrick_def getGhostBrick_calls_def getTemplateBounds_def
      getTemplateBounds_calls_def getTemplateBounds_body_def xyz_def join_eval
      template_of_2_def bounds_5_def example_match_def example_player_def example_num_def)

subsection \<open>getPosition\<close>









































subsection \<open>The chunk collector\<close>

lemma collector_noise:
  assumes "cstate c = AwaitingAnchor"
    and "\<forall>l\<in>set pre. \<forall>m. rx_exec (patternRegex c) l = Some m \<longrightarrow>
           groups m (anchorField c) \<noteq> Some start_sentinel"
  shows "collector_run c (map Line pre) = c"
  using assms
proof (induction pre)
  case Nil
  show ?case by (simp add: collector_run_def)
next
  case (Cons l pre)
  have "collector_step c (Line l) = c"
    using Cons.prems by (cases "rx_exec (patternRegex c) l") (simp_all add: collector_step_def)
  moreover have "collector_run c (map Line pre) = c"
    using Cons by simp
  ultimately show ?case by (simp add: collector_run_def)
qed

lemma collector_accumulates:
  assumes "cstate c = Accumulating"
  shows "collector_run c (map Line post) =
           c\<lparr>accumulated := accumulated c @ List.map_filter (rx_exec (patternRegex c)) post\<rparr>"
  using assms
proof (induction post arbitrary: c)
  case Nil
  show ?case by (simp add: collector_run_def map_filter_simps)
next
  case (Cons l post)
  show ?case
  proof (cases "rx_exec (patternRegex c) l")
    case None
    then have "collector_step c (Line l) = c" by (simp add: collector_step_def)
    with Cons None show ?thesis
      by (simp add: collector_run_def map_filter_simps)
  next
    case (Some m)
    let ?c = "c\<lparr>accumulated := accumulated c @ [m]\<rparr>"
    have s: "collector_step c (Line l) = ?c"
      using Some Cons.prems by (simp add: collector_step_def)
    have "cstate ?c = Accumulating" using Cons.prems by simp
    from Cons.IH[OF this] have "collector_run ?c (map Line post) =
        ?c\<lparr>accumulated := accumulated ?c @ List.map_filter (rx_exec (patternRegex ?c)) post\<rparr>" .
    with s Some show ?thesis
      by (simp add: collector_run_def map_filter_simps)
  qed
qed

lemma collector_anchored:
  assumes "cstate c = AwaitingAnchor"
    and "\<forall>l\<in>set pre. \<forall>m. rx_exec (patternRegex c) l = Some m \<longrightarrow>
           groups m (anchorField c) \<noteq> Some start_sentinel"
    and "rx_exec (patternRegex c) l0 = Some m0"
    and "groups m0 (anchorField c) = Some start_sentinel"
  shows "collector_run c (map Line (pre @ l0 # post)) =
           c\<lparr>accumulated := m0 # List.map_filter (rx_exec (patternRegex c)) post,
             cstate := Accumulating\<rparr>"
proof -
  let ?c = "c\<lparr>accumulated := [m0], cstate := Accumulating\<rparr>"
  have "collector_run c (map Line (pre @ l0 # post)) =
          collector_run (collector_step (collector_run c (map Line pre)) (Line l0)) (map Line post)"
    by (simp add: collector_run_def)
  also have "collector_run c (map Line pre) = c"
    using assms(1,2) by (rule collector_noise)
  also have "collector_step c (Line l0) = ?c"
    using assms(1,3,4) by (simp add: collector_step_def)
  also have "collector_run ?c (map Line post) =
      ?c\<lparr>accumulated := accumulated ?c @ List.map_filter (rx_exec (patternRegex ?c)) post\<rparr>"
    by (rule collector_accumulates) simp
  finally show ?thesis by simp
qed

text \<open>
  C6. A chunk collector that awaits its anchor is left unchanged by a line that matches
  its pattern with an anchor capture other than the start sentinel. Fed with lines of
  which none before \<open>l0\<close> matches with the sentinel and \<open>l0\<close> does, it has accumulated the
  match of \<open>l0\<close> followed by the matches of the later lines, in arrival order and whatever
  their anchor captures are.
\<close>

theorem collector_anchor_then_accumulate:
  "(cstate c = AwaitingAnchor \<and> rx_exec (patternRegex c) l = Some m
      \<and> groups m (anchorField c) \<noteq> Some start_sentinel
      \<longrightarrow> collector_step c (Line l) = c)
   \<and> (cstate c = AwaitingAnchor
      \<and> (\<forall>l\<in>set pre. \<forall>m. rx_exec (patternRegex c) l = Some m \<longrightarrow>
             groups m (anchorField c) \<noteq> Some start_sentinel)
      \<and> rx_exec (patternRegex c) l0 = Some m0
      \<and> groups m0 (anchorField c) = Some start_sentinel
      \<longrightarrow> accumulated (collector_run c (map Line (pre @ l0 # post)))
            = m0 # List.map_filter (rx_exec (patternRegex c)) post
          \<and> cstate (collector_run c (map Line (pre @ l0 # post))) = Accumulating)"
proof (intro conjI impI; (elim conjE)?)
  show "collector_step c (Line l) = c"
    if "cstate c = AwaitingAnchor" and "rx_exec (patternRegex c) l = Some m"
      and "groups m (anchorField c) \<noteq> Some start_sentinel"
    using that by (simp add: collector_step_def)
next
  assume a: "cstate c = AwaitingAnchor"
    "\<forall>l\<in>set pre. \<forall>m. rx_exec (patternRegex c) l = Some m \<longrightarrow>
             groups m (anchorField c) \<noteq> Some start_sentinel"
    "rx_exec (patternRegex c) l0 = Some m0"
    "groups m0 (anchorField c) = Some start_sentinel"
  show "accumulated (collector_run c (map Line (pre @ l0 # post)))
            = m0 # List.map_filter (rx_exec (patternRegex c)) post"
    unfolding collector_anchored[OF a] by simp
  show "cstate (collector_run c (map Line (pre @ l0 # post))) = Accumulating"
    unfolding collector_anchored[OF a] by simp
qed

text \<open>The example of the specification: fed the lines \<^verbatim>\<open>2) x\<close>, \<^verbatim>\<open>0) a\<close>, \<^verbatim>\<open>1) b\<close>, \<^verbatim>\<open>2) c\<close>, a
  collector anchored on \<^verbatim>\<open>index\<close> has accumulated the matches of the last three.\<close>

theorem collector_anchor_then_accumulate_witness:
  "map (\<lambda>m. (matched m, groups m ''index'', groups m ''val''))
     (accumulated (collector_run (collector_new example_pattern ''index'')
        (map Line [''2) x'', ''0) a'', ''1) b'', ''2) c''])))
   = [(''0) a'', Some ''0'', Some ''a''), (''1) b'', Some ''1'', Some ''b''),
      (''2) c'', Some ''2'', Some ''c'')]
   \<and> cstate (collector_run (collector_new example_pattern ''index'')
        (map Line [''2) x'', ''0) a'', ''1) b'', ''2) c''])) = Accumulating
   \<and> map_option (\<lambda>m. groups m ''index'') (rx_exec example_pattern ''2) x'') = Some (Some ''2'')"
proof -
  let ?c = "collector_new example_pattern ''index''"
  have x: "map_option (\<lambda>m. groups m ''index'') (rx_exec example_pattern ''2) x'') = Some (Some ''2'')"
    by code_simp
  have a: "map_option (\<lambda>m. (matched m, groups m ''index'', groups m ''val''))
             (rx_exec example_pattern ''0) a'') = Some (''0) a'', Some ''0'', Some ''a'')"
    by code_simp
  then obtain m0 where m0: "rx_exec example_pattern ''0) a'' = Some m0"
    and v0: "(matched m0, groups m0 ''index'', groups m0 ''val'') = (''0) a'', Some ''0'', Some ''a'')"
    by auto
  have rest: "map (\<lambda>m. (matched m, groups m ''index'', groups m ''val''))
        (List.map_filter (rx_exec example_pattern) [''1) b'', ''2) c''])
      = [(''1) b'', Some ''1'', Some ''b''), (''2) c'', Some ''2'', Some ''c'')]"
    by code_simp
  have h1: "cstate ?c = AwaitingAnchor" by (simp add: collector_new_def)
  have h2: "\<forall>l\<in>set [''2) x'']. \<forall>m. rx_exec (patternRegex ?c) l = Some m \<longrightarrow>
             groups m (anchorField ?c) \<noteq> Some start_sentinel"
    using x by (auto simp: collector_new_def start_sentinel_def)
  have h3: "rx_exec (patternRegex ?c) ''0) a'' = Some m0"
    using m0 by (simp add: collector_new_def)
  have h4: "groups m0 (anchorField ?c) = Some start_sentinel"
    using v0 by (simp add: collector_new_def start_sentinel_def)
  from collector_anchor_then_accumulate[where c = ?c and pre = "[''2) x'']" and ?l0.0 = "''0) a''"
      and ?m0.0 = m0 and post = "[''1) b'', ''2) c'']", THEN conjunct2, rule_format,
      OF conjI[OF h1 conjI[OF h2 conjI[OF h3 h4]]]]
  have r: "accumulated (collector_run ?c (map Line ([''2) x''] @ ''0) a'' # [''1) b'', ''2) c''])))
            = m0 # List.map_filter (rx_exec (patternRegex ?c)) [''1) b'', ''2) c'']"
    and s: "cstate (collector_run ?c (map Line ([''2) x''] @ ''0) a'' # [''1) b'', ''2) c'']))) = Accumulating"
    by blast+
  have p: "patternRegex ?c = example_pattern" by (simp add: collector_new_def)
  have "map (\<lambda>m. (matched m, groups m ''index'', groups m ''val''))
     (accumulated (collector_run ?c (map Line [''2) x'', ''0) a'', ''1) b'', ''2) c''])))
   = [(''0) a'', Some ''0'', Some ''a''), (''1) b'', Some ''1'', Some ''b''),
      (''2) c'', Some ''2'', Some ''c'')]"
    using r v0 rest unfolding p by simp
  moreover have "cstate (collector_run ?c (map Line [''2) x'', ''0) a'', ''1) b'', ''2) c''])) = Accumulating"
    using s by simp
  ultimately show ?thesis using x by blast
qed

subsection \<open>The terminal\<close>

















end
